theory Spec2Isabelle
  imports Complex_Main
begin

section \<open>JavaScript values used by the session component\<close>

text \<open>
  The fields of \<open>user_metadata\<close> are typed \<open>any\<close>, and the component combines two of them
  with \<open>||\<close>, whose result depends on JavaScript truthiness. The values below are the
  ones \<open>||\<close> distinguishes: \<open>undefined\<close>, \<open>null\<close>, booleans, numbers (\<open>NaN\<close> apart),
  strings and objects (always truthy, their content is not inspected).
\<close>

datatype js_value =
    JUndefined
  | JNull
  | JBool bool
  | JNumber real
  | JNaN
  | JString string
  | JObject

fun truthy :: "js_value \<Rightarrow> bool" where
  "truthy JUndefined = False"
| "truthy JNull = False"
| "truthy (JBool b) = b"
| "truthy (JNumber x) = (x \<noteq> 0)"
| "truthy JNaN = False"
| "truthy (JString s) = (s \<noteq> [])"
| "truthy JObject = True"

text \<open>\<open>a || b\<close>: the left operand when it is truthy, the right operand otherwise.\<close>

definition js_or :: "js_value \<Rightarrow> js_value \<Rightarrow> js_value" where
  "js_or a b = (if truthy a then a else b)"

text \<open>
  \<open>m?.k\<close>: \<open>undefined\<close> when \<open>m\<close> is \<open>null\<close> or \<open>undefined\<close> (here \<open>None\<close>), and the
  property otherwise, which is \<open>undefined\<close> when the object has no such key.
\<close>

definition opt_chain :: "(string \<rightharpoonup> js_value) option \<Rightarrow> string \<Rightarrow> js_value" where
  "opt_chain m k =
     (case m of
        None \<Rightarrow> JUndefined
      | Some obj \<Rightarrow> (case obj k of None \<Rightarrow> JUndefined | Some v \<Rightarrow> v))"

section \<open>Identity, traits and the analytics sink\<close>

text \<open>
  The attributes of the provider's \<open>User\<close> that the component reads: \<open>id\<close>, the optional
  \<open>email\<close> (\<open>None\<close> is \<open>undefined\<close>) and \<open>user_metadata\<close>, read through \<open>?.\<close>.
\<close>

record User =
  user_id :: string
  email :: "string option"
  user_metadata :: "(string \<rightharpoonup> js_value) option"

record traits =
  trait_email :: "string option"
  trait_name :: js_value

text \<open>
  The sink is the \<open>analytics\<close> object. The log lists the calls the component makes on it,
  oldest first: \<open>analytics.identify(userId, traits)\<close> and \<open>analytics.reset()\<close>. What the
  object does with a call (it forwards to the analytics client when \<open>window\<close> exists) is
  the sink's own business.
\<close>

datatype sink_call = Identify string traits | Reset

definition analytics_identify :: "string \<Rightarrow> traits \<Rightarrow> sink_call list \<Rightarrow> sink_call list" where
  "analytics_identify userId tr calls = calls @ [Identify userId tr]"

definition analytics_reset :: "sink_call list \<Rightarrow> sink_call list" where
  "analytics_reset calls = calls @ [Reset]"

section \<open>The session source adapters\<close>

text \<open>
  A promise settles once, fulfilled with a value or rejected with a reason.
\<close>

datatype 'a settled = Fulfilled 'a | Rejected string

text \<open>
  The provider's answer to \<open>supabase.auth.getUser()\<close>: \<open>{ data: { user }, error }\<close>.
\<close>

record auth_response =
  data_user :: "User option"
  resp_error :: "string option"

text \<open>
  \<open>getUser\<close> awaits the provider's answer, takes \<open>data.user\<close> out of it and returns it;
  the \<open>error\<close> field is not read. A rejection of the awaited promise rejects \<open>getUser\<close>.
\<close>

definition getUser :: "auth_response settled \<Rightarrow> (User option) settled" where
  "getUser r =
     (case r of
        Fulfilled resp \<Rightarrow> Fulfilled (data_user resp)
      | Rejected e \<Rightarrow> Rejected e)"

record session =
  session_user :: "User option"

text \<open>
  The listener that \<open>onAuthStateChange\<close> registers passes \<open>session?.user || null\<close> to the
  component's callback. A user object is truthy, so the result is the session's user when
  there is a session with a user, and \<open>null\<close> otherwise.
\<close>

definition listener_arg :: "session option \<Rightarrow> User option" where
  "listener_arg se = (case se of None \<Rightarrow> None | Some x \<Rightarrow> session_user x)"

section \<open>The session store: \<open>AuthProvider\<close>\<close>

text \<open>
  \<open>AuthContextType\<close> is the value readers see. The store extends it with the sink log,
  with the two registrations the effect makes (the one-shot fetch whose promise has not
  settled yet, and the push subscription) and with whether the component is mounted.
\<close>

record AuthContextType =
  user :: "User option"
  isLoading :: bool

record store = AuthContextType +
  sink :: "sink_call list"
  fetch_pending :: bool
  subscribed :: bool
  mounted :: bool

text \<open>
  The two \<open>useState\<close> initial values. The effect runs on the mounted component, and
  nothing is registered before it runs.
\<close>

definition AuthProvider_init :: store where
  "AuthProvider_init =
     \<lparr>user = None, isLoading = True, sink = [], fetch_pending = False, subscribed = False,
      mounted = True\<rparr>"

text \<open>
  The setters that \<open>useState\<close> returns. A state update requested for a component that is
  no longer mounted is dropped: the cells keep what they held at unmount.
\<close>

definition setUser :: "User option \<Rightarrow> store \<Rightarrow> store" where
  "setUser u s = (if mounted s then s\<lparr>user := u\<rparr> else s)"

definition setIsLoading :: "bool \<Rightarrow> store \<Rightarrow> store" where
  "setIsLoading b s = (if mounted s then s\<lparr>isLoading := b\<rparr> else s)"

text \<open>The callback given to \<open>getUser().then\<close>.\<close>

definition fetch_then :: "User option \<Rightarrow> store \<Rightarrow> store" where
  "fetch_then u s =
     (let s1 = setUser u s;
          s2 = setIsLoading False s1
      in case u of
           Some usr \<Rightarrow>
             s2\<lparr>sink := analytics_identify (user_id usr)
                 \<lparr>trait_email = email usr,
                  trait_name = js_or (opt_chain (user_metadata usr) ''full_name'')
                                     (opt_chain (user_metadata usr) ''name'')\<rparr>
                 (sink s2)\<rparr>
         | None \<Rightarrow> s2)"

text \<open>The callback given to \<open>onAuthStateChange\<close>.\<close>

definition auth_change_cb :: "User option \<Rightarrow> store \<Rightarrow> store" where
  "auth_change_cb u s =
     (let s1 = setUser u s;
          s2 = setIsLoading False s1
      in case u of
           Some usr \<Rightarrow>
             s2\<lparr>sink := analytics_identify (user_id usr)
                 \<lparr>trait_email = email usr,
                  trait_name = js_or (opt_chain (user_metadata usr) ''full_name'')
                                     (opt_chain (user_metadata usr) ''name'')\<rparr>
                 (sink s2)\<rparr>
         | None \<Rightarrow> s2\<lparr>sink := analytics_reset (sink s2)\<rparr>)"

text \<open>
  The effect body. It first calls \<open>getUser().then(...)\<close>, which leaves a fetch pending,
  and then \<open>onAuthStateChange(...)\<close>. The argument says whether that second call throws
  (\<open>Some e\<close>) or returns the unsubscribe function (\<open>None\<close>). Nothing in the body catches
  an exception, so a throw leaves the effect with no cleanup function returned. No error
  boundary stands above the component (the root layout has none), so the exception that
  leaves the effect makes the component unmount: the state handed back is that of an
  unmounted component whose fetch is still pending.
\<close>

definition useEffect_body :: "string option \<Rightarrow> store \<Rightarrow> (string + unit) \<times> store" where
  "useEffect_body subscribe_throws s =
     (let s1 = s\<lparr>fetch_pending := True\<rparr>
      in case subscribe_throws of
           Some e \<Rightarrow> (Inl e, s1\<lparr>mounted := False\<rparr>)
         | None \<Rightarrow> (Inr (), s1\<lparr>subscribed := True\<rparr>))"

text \<open>The cleanup function the effect returns: \<open>() => subscription.unsubscribe()\<close>.\<close>

definition unsubscribe :: "store \<Rightarrow> store" where
  "unsubscribe s = s\<lparr>subscribed := False\<rparr>"

text \<open>
  What can happen to a started store: the fetch promise fulfils or rejects, the
  subscription delivers a notification, the component unmounts. A promise settles once
  and \<open>then\<close> has no rejection handler, so a rejection runs no callback; a released
  subscription delivers nothing. Unmounting runs the effect's cleanup and ends the
  component. The two callbacks themselves check nothing: a fetch result that arrives
  after unmount still runs its callback, whose setter calls are then dropped and whose
  sink call is not.
\<close>

datatype event =
    FetchResolved "User option"
  | FetchRejected string
  | AuthStateChange "User option"
  | Unmount

fun step :: "event \<Rightarrow> store \<Rightarrow> store" where
  "step (FetchResolved u) s =
     (if fetch_pending s then fetch_then u (s\<lparr>fetch_pending := False\<rparr>) else s)"
| "step (FetchRejected e) s =
     (if fetch_pending s then s\<lparr>fetch_pending := False\<rparr> else s)"
| "step (AuthStateChange u) s =
     (if subscribed s then auth_change_cb u s else s)"
| "step Unmount s = unsubscribe (s\<lparr>mounted := False\<rparr>)"

definition run :: "event list \<Rightarrow> store \<Rightarrow> store" where
  "run es s = fold step es s"

text \<open>How a settled \<open>getUser()\<close> promise reaches the store.\<close>

definition fetch_event :: "(User option) settled \<Rightarrow> event" where
  "fetch_event r = (case r of Fulfilled u \<Rightarrow> FetchResolved u | Rejected e \<Rightarrow> FetchRejected e)"

text \<open>A completion is delivered when its callback runs.\<close>

fun delivered :: "event \<Rightarrow> store \<Rightarrow> bool" where
  "delivered (FetchResolved u) s = fetch_pending s"
| "delivered (AuthStateChange u) s = subscribed s"
| "delivered (FetchRejected e) s = False"
| "delivered Unmount s = False"

text \<open>The store after a start in which the subscription is established.\<close>

definition started :: store where
  "started = snd (useEffect_body None AuthProvider_init)"

section \<open>The reader's view\<close>

text \<open>
  The three-valued session value of the specification, read off the two state cells:
  not yet known while \<open>isLoading\<close> holds, and the identity or its absence afterwards.
\<close>

datatype SessionValue = Unknown | Absent | Present User

definition session_value :: "store \<Rightarrow> SessionValue" where
  "session_value s =
     (if isLoading s then Unknown
      else case user s of None \<Rightarrow> Absent | Some u \<Rightarrow> Present u)"

definition resolved :: "store \<Rightarrow> bool" where
  "resolved s = (\<not> isLoading s)"

text \<open>
  \<open>createContext\<close> fixes the default value; \<open>useContext\<close> returns the value of the
  innermost enclosing provider (the head of the list) and the default when there is none.
\<close>

definition AuthContext_default :: AuthContextType where
  "AuthContext_default = \<lparr>user = None, isLoading = True\<rparr>"

definition useContext :: "'a \<Rightarrow> 'a list \<Rightarrow> 'a" where
  "useContext dflt providers = (case providers of [] \<Rightarrow> dflt | v # _ \<Rightarrow> v)"

definition useAuth :: "AuthContextType list \<Rightarrow> AuthContextType" where
  "useAuth providers = useContext AuthContext_default providers"

text \<open>The value \<open>AuthProvider\<close> renders into its provider: \<open>{ user, isLoading }\<close>.\<close>

definition provider_value :: "store \<Rightarrow> AuthContextType" where
  "provider_value s = \<lparr>user = user s, isLoading = isLoading s\<rparr>"

section \<open>Vocabulary for the properties\<close>

text \<open>
  The call \<open>analytics.identify(user.id, { email, name })\<close> that both callbacks make for
  an identity.
\<close>

definition associate_call :: "User \<Rightarrow> sink_call" where
  "associate_call usr =
     Identify (user_id usr)
       \<lparr>trait_email = email usr,
        trait_name = js_or (opt_chain (user_metadata usr) ''full_name'')
                           (opt_chain (user_metadata usr) ''name'')\<rparr>"

text \<open>The one call a push notification leads to, by what it carries.\<close>

definition push_dispatch :: "User option \<Rightarrow> sink_call" where
  "push_dispatch u = (case u of Some usr \<Rightarrow> associate_call usr | None \<Rightarrow> Reset)"

text \<open>The identity a completion carries.\<close>

fun carried :: "event \<Rightarrow> User option" where
  "carried (FetchResolved u) = u"
| "carried (AuthStateChange u) = u"
| "carried (FetchRejected e) = None"
| "carried Unmount = None"

text \<open>The identities of the scenarios: \<open>{ id: "u1" }\<close>, and two with metadata.\<close>

definition u1 :: User where
  "u1 = \<lparr>user_id = ''u1'', email = None, user_metadata = None\<rparr>"

definition ada :: User where
  "ada = \<lparr>user_id = ''u2'', email = Some ''ada@example.org'',
          user_metadata = Some [''full_name'' \<mapsto> JString [], ''name'' \<mapsto> JString ''Ada'']\<rparr>"

definition grace :: User where
  "grace = \<lparr>user_id = ''u3'', email = None,
            user_metadata =
              Some [''full_name'' \<mapsto> JString ''Grace Hopper'', ''name'' \<mapsto> JString ''Grace'']\<rparr>"

section \<open>Basic facts about the callbacks\<close>

lemma fetch_then_fields:
  "user (fetch_then u s) = (if mounted s then u else user s)"
  "isLoading (fetch_then u s) = (\<not> mounted s \<and> isLoading s)"
  "fetch_pending (fetch_then u s) = fetch_pending s"
  "subscribed (fetch_then u s) = subscribed s"
  "mounted (fetch_then u s) = mounted s"
  by (simp_all add: fetch_then_def setUser_def setIsLoading_def Let_def split: option.split)

lemma auth_change_cb_fields:
  "user (auth_change_cb u s) = (if mounted s then u else user s)"
  "isLoading (auth_change_cb u s) = (\<not> mounted s \<and> isLoading s)"
  "fetch_pending (auth_change_cb u s) = fetch_pending s"
  "subscribed (auth_change_cb u s) = subscribed s"
  "mounted (auth_change_cb u s) = mounted s"
  by (simp_all add: auth_change_cb_def setUser_def setIsLoading_def Let_def
      split: option.split)

lemma fetch_then_sink:
  "sink (fetch_then u s) =
     (case u of
        None \<Rightarrow> sink s
      | Some usr \<Rightarrow>
          sink s @ [Identify (user_id usr)
            \<lparr>trait_email = email usr,
             trait_name = js_or (opt_chain (user_metadata usr) ''full_name'')
                                (opt_chain (user_metadata usr) ''name'')\<rparr>])"
  by (simp add: fetch_then_def setUser_def setIsLoading_def analytics_identify_def Let_def
      split: option.split)

lemma auth_change_cb_sink:
  "sink (auth_change_cb u s) =
     (case u of
        None \<Rightarrow> sink s @ [Reset]
      | Some usr \<Rightarrow>
          sink s @ [Identify (user_id usr)
            \<lparr>trait_email = email usr,
             trait_name = js_or (opt_chain (user_metadata usr) ''full_name'')
                                (opt_chain (user_metadata usr) ''name'')\<rparr>])"
  by (simp add: auth_change_cb_def setUser_def setIsLoading_def analytics_identify_def
      analytics_reset_def Let_def split: option.split)

lemma started_eq:
  "started =
     \<lparr>user = None, isLoading = True, sink = [], fetch_pending = True, subscribed = True,
      mounted = True\<rparr>"
  by (simp add: started_def useEffect_body_def AuthProvider_init_def)

lemma run_Nil: "run [] s = s"
  by (simp add: run_def)

lemma run_Cons: "run (e # es) s = run es (step e s)"
  by (simp add: run_def)

lemma run_append: "run (es @ fs) s = run fs (run es s)"
  by (simp add: run_def)

text \<open>How the two metadata reads and \<open>||\<close> come out on the stored data.\<close>

lemma name_of_metadata:
  "js_or (opt_chain md ''full_name'') (opt_chain md ''name'') =
     (case md of
        None \<Rightarrow> JUndefined
      | Some m \<Rightarrow>
          (case m ''full_name'' of
             None \<Rightarrow> (case m ''name'' of None \<Rightarrow> JUndefined | Some w \<Rightarrow> w)
           | Some v \<Rightarrow>
               if truthy v then v
               else (case m ''name'' of None \<Rightarrow> JUndefined | Some w \<Rightarrow> w)))"
  by (simp add: js_or_def opt_chain_def split: option.split)

section \<open>Resolution is permanent\<close>

lemma step_isLoading: "\<not> isLoading s \<Longrightarrow> \<not> isLoading (step e s)"
  by (cases e) (simp_all add: fetch_then_fields auth_change_cb_fields unsubscribe_def)

lemma run_isLoading: "\<not> isLoading s \<Longrightarrow> \<not> isLoading (run es s)"
  by (induction es arbitrary: s) (simp_all add: run_Nil run_Cons step_isLoading)

lemma delivered_isLoading: "delivered e s \<Longrightarrow> mounted s \<Longrightarrow> \<not> isLoading (step e s)"
  by (cases e) (simp_all add: fetch_then_fields auth_change_cb_fields)

lemma delivered_user: "delivered e s \<Longrightarrow> mounted s \<Longrightarrow> user (step e s) = carried e"
  by (cases e) (simp_all add: fetch_then_fields auth_change_cb_fields)

text \<open>
  C6. In every sequence of events, once a fetch result or a push notification has been
  delivered to the mounted component, the resolved flag is true and stays true whatever
  follows: the session value is never \<open>Unknown\<close> again.
\<close>

theorem resolved_after_first_completion:
  "delivered e (run es1 s) \<Longrightarrow> mounted (run es1 s) \<Longrightarrow>
     resolved (run (es1 @ e # es2) s) \<and> session_value (run (es1 @ e # es2) s) \<noteq> Unknown"
proof -
  assume d: "delivered e (run es1 s)" and m: "mounted (run es1 s)"
  have "\<not> isLoading (step e (run es1 s))"
    using d m by (rule delivered_isLoading)
  then have "\<not> isLoading (run es2 (step e (run es1 s)))"
    by (rule run_isLoading)
  then have "\<not> isLoading (run (es1 @ e # es2) s)"
    by (simp add: run_append run_Cons)
  then show ?thesis
    by (simp add: resolved_def session_value_def split: option.split)
qed

theorem resolved_after_first_completion_witness:
  "delivered (FetchResolved None) (run [] started) \<and> mounted (run [] started)
   \<and> resolved (run ([] @ FetchResolved None # [AuthStateChange (Some u1), Unmount]) started)
   \<and> session_value (run ([] @ FetchResolved None # [AuthStateChange (Some u1), Unmount]) started)
       = Present u1"
  using resolved_after_first_completion
    [of "FetchResolved None" "[]" started "[AuthStateChange (Some u1), Unmount]"]
  by (simp add: run_def started_eq fetch_then_fields auth_change_cb_fields unsubscribe_def
      session_value_def)

section \<open>What is dispatched to the sink\<close>

lemma push_sink:
  "subscribed s \<Longrightarrow> sink (step (AuthStateChange u) s) = sink s @ [push_dispatch u]"
  by (simp add: auth_change_cb_sink push_dispatch_def associate_call_def split: option.split)

lemma push_subscribed: "subscribed s \<Longrightarrow> subscribed (step (AuthStateChange u) s)"
  by (simp add: auth_change_cb_fields)

lemma pushes_sink:
  "subscribed s \<Longrightarrow> sink (run (map AuthStateChange us) s) = sink s @ map push_dispatch us"
proof (induction us arbitrary: s)
  case Nil
  show ?case by (simp add: run_Nil)
next
  case (Cons u us)
  have "sink (run (map AuthStateChange (u # us)) s)
        = sink (run (map AuthStateChange us) (step (AuthStateChange u) s))"
    by (simp add: run_Cons)
  also have "\<dots> = sink (step (AuthStateChange u) s) @ map push_dispatch us"
    using Cons.IH [OF push_subscribed [OF Cons.prems]] .
  also have "\<dots> = sink s @ map push_dispatch (u # us)"
    using push_sink [OF Cons.prems] by simp
  finally show ?case .
qed

lemma fetch_identity_sink:
  "fetch_pending s \<Longrightarrow>
     sink (step (FetchResolved (Some usr)) s) = sink s @ [associate_call usr]"
  by (simp add: fetch_then_sink associate_call_def)

lemma fetch_null_sink: "sink (step (FetchResolved None) s) = sink s"
  by (simp add: fetch_then_sink)

lemma associate_call_u1:
  "associate_call u1 = Identify ''u1'' \<lparr>trait_email = None, trait_name = JUndefined\<rparr>"
  by (simp add: associate_call_def u1_def opt_chain_def js_or_def)

text \<open>
  C8. For a completion carrying an identity, fetch result or push notification alike, the
  sink receives one more call: identify with the identity's id, and as traits the
  identity's email and a name read from the identity's stored metadata. The name is the
  value stored under \<open>full_name\<close> when the metadata has that key and the value is truthy;
  otherwise it is the value stored under \<open>name\<close>, and \<open>undefined\<close> when the metadata has
  no such key or the identity has no metadata at all.
\<close>

theorem identify_traits:
  "sink (fetch_then (Some usr) s) =
     sink s @ [Identify (user_id usr)
       \<lparr>trait_email = email usr,
        trait_name =
          (case user_metadata usr of
             None \<Rightarrow> JUndefined
           | Some m \<Rightarrow>
               (case m ''full_name'' of
                  None \<Rightarrow> (case m ''name'' of None \<Rightarrow> JUndefined | Some w \<Rightarrow> w)
                | Some v \<Rightarrow>
                    if truthy v then v
                    else (case m ''name'' of None \<Rightarrow> JUndefined | Some w \<Rightarrow> w)))\<rparr>]
   \<and> sink (auth_change_cb (Some usr) s) =
     sink s @ [Identify (user_id usr)
       \<lparr>trait_email = email usr,
        trait_name =
          (case user_metadata usr of
             None \<Rightarrow> JUndefined
           | Some m \<Rightarrow>
               (case m ''full_name'' of
                  None \<Rightarrow> (case m ''name'' of None \<Rightarrow> JUndefined | Some w \<Rightarrow> w)
                | Some v \<Rightarrow>
                    if truthy v then v
                    else (case m ''name'' of None \<Rightarrow> JUndefined | Some w \<Rightarrow> w)))\<rparr>]"
proof
  show "sink (fetch_then (Some usr) s) =
     sink s @ [Identify (user_id usr)
       \<lparr>trait_email = email usr,
        trait_name =
          (case user_metadata usr of
             None \<Rightarrow> JUndefined
           | Some m \<Rightarrow>
               (case m ''full_name'' of
                  None \<Rightarrow> (case m ''name'' of None \<Rightarrow> JUndefined | Some w \<Rightarrow> w)
                | Some v \<Rightarrow>
                    if truthy v then v
                    else (case m ''name'' of None \<Rightarrow> JUndefined | Some w \<Rightarrow> w)))\<rparr>]"
    by (simp only: fetch_then_sink name_of_metadata option.case)
next
  show "sink (auth_change_cb (Some usr) s) =
     sink s @ [Identify (user_id usr)
       \<lparr>trait_email = email usr,
        trait_name =
          (case user_metadata usr of
             None \<Rightarrow> JUndefined
           | Some m \<Rightarrow>
               (case m ''full_name'' of
                  None \<Rightarrow> (case m ''name'' of None \<Rightarrow> JUndefined | Some w \<Rightarrow> w)
                | Some v \<Rightarrow>
                    if truthy v then v
                    else (case m ''name'' of None \<Rightarrow> JUndefined | Some w \<Rightarrow> w)))\<rparr>]"
    by (simp only: auth_change_cb_sink name_of_metadata option.case)
qed

text \<open>
  Three identities: a truthy \<open>full_name\<close> is forwarded; an empty \<open>full_name\<close> gives way to
  \<open>name\<close>; with no metadata the name is \<open>undefined\<close>.
\<close>

theorem identify_traits_witness:
  "sink (fetch_then (Some grace) started) =
     [Identify ''u3'' \<lparr>trait_email = None, trait_name = JString ''Grace Hopper''\<rparr>]
   \<and> sink (auth_change_cb (Some ada) started) =
     [Identify ''u2'' \<lparr>trait_email = Some ''ada@example.org'', trait_name = JString ''Ada''\<rparr>]
   \<and> sink (auth_change_cb (Some u1) started) =
     [Identify ''u1'' \<lparr>trait_email = None, trait_name = JUndefined\<rparr>]"
  using identify_traits [of grace started] identify_traits [of ada started]
    identify_traits [of u1 started]
  by (simp add: started_eq grace_def ada_def u1_def)

text \<open>
  C9. A delivered push notification carrying no identity calls \<open>reset\<close> on the sink
  whatever the state before it; two such notifications in a row call it twice.
\<close>

theorem null_push_always_resets:
  "subscribed s \<Longrightarrow>
     sink (step (AuthStateChange None) s) = sink s @ [Reset]
   \<and> sink (run [AuthStateChange None, AuthStateChange None] s) = sink s @ [Reset, Reset]"
  by (simp add: run_def auth_change_cb_sink auth_change_cb_fields)

theorem null_push_always_resets_witness:
  "subscribed started
   \<and> sink (step (AuthStateChange None) started) = [Reset]
   \<and> sink (run [AuthStateChange None, AuthStateChange None] started) = [Reset, Reset]"
  using null_push_always_resets [of started] by (simp add: started_eq)

text \<open>
  Against C1: two push notifications carrying the same identity make the store call the
  sink twice, not once.
\<close>

theorem same_identity_twice_counterexample:
  "sink (run [AuthStateChange (Some u1), AuthStateChange (Some u1)] started) =
     [Identify ''u1'' \<lparr>trait_email = None, trait_name = JUndefined\<rparr>,
      Identify ''u1'' \<lparr>trait_email = None, trait_name = JUndefined\<rparr>]
   \<and> length (sink (run [AuthStateChange (Some u1), AuthStateChange (Some u1)] started)) = 2"
  by (simp add: run_def started_eq auth_change_cb_sink auth_change_cb_fields u1_def
      opt_chain_def js_or_def)

text \<open>
  C1, as the code has it. The store dispatches per completion, not per transition: for
  every sequence of push notifications the sink receives exactly one call per
  notification, in order, identify for one carrying an identity and reset for one
  carrying none, whatever the previous notification carried; and a fetch result carrying
  an identity adds one identify call.
\<close>

theorem dispatch_per_completion:
  "(subscribed s \<longrightarrow>
      sink (run (map AuthStateChange us) s) = sink s @ map push_dispatch us)
   \<and> (fetch_pending s \<longrightarrow>
      sink (step (FetchResolved (Some usr)) s) = sink s @ [associate_call usr])"
  using pushes_sink [of s us] fetch_identity_sink [of s usr] by blast

theorem dispatch_per_completion_witness:
  "subscribed started \<and> fetch_pending started
   \<and> sink (run (map AuthStateChange [Some u1, Some u1, None, None]) started) =
       [associate_call u1, associate_call u1, Reset, Reset]
   \<and> sink (step (FetchResolved (Some u1)) started) = [associate_call u1]"
  using dispatch_per_completion [of started "[Some u1, Some u1, None, None]" u1]
  by (simp add: started_eq push_dispatch_def)

text \<open>
  Against C2: when the fetch resolves with no identity and nothing else happens, the
  store ends in \<open>Absent\<close> but the sink has received no call at all.
\<close>

theorem fetch_null_counterexample:
  "session_value (run [FetchResolved None] started) = Absent
   \<and> sink (run [FetchResolved None] started) = []
   \<and> count_list (sink (run [FetchResolved None] started)) Reset = 0"
  by (simp add: run_def started_eq fetch_then_sink fetch_then_fields session_value_def)

text \<open>
  C2, as the code has it. A fetch that resolves with no identity on the mounted component
  leaves the store in \<open>Absent\<close> with resolved true and makes no call on the sink. The
  first completion of a started store produces a sink call exactly when it is not such a
  fetch result.
\<close>

theorem fetch_null_resolves_silently:
  "(fetch_pending s \<and> mounted s \<longrightarrow>
      session_value (step (FetchResolved None) s) = Absent
      \<and> resolved (step (FetchResolved None) s)
      \<and> sink (step (FetchResolved None) s) = sink s)
   \<and> (delivered e started \<longrightarrow> (sink (step e started) = []) = (e = FetchResolved None))"
proof (intro conjI impI)
  assume "fetch_pending s \<and> mounted s"
  then show "session_value (step (FetchResolved None) s) = Absent"
    by (simp add: session_value_def fetch_then_fields)
next
  assume "fetch_pending s \<and> mounted s"
  then show "resolved (step (FetchResolved None) s)"
    by (simp add: resolved_def fetch_then_fields)
next
  show "sink (step (FetchResolved None) s) = sink s"
    by (rule fetch_null_sink)
next
  assume "delivered e started"
  then show "(sink (step e started) = []) = (e = FetchResolved None)"
    by (cases e)
      (simp_all add: started_eq fetch_then_sink auth_change_cb_sink split: option.split)
qed

theorem fetch_null_resolves_silently_witness:
  "fetch_pending started \<and> mounted started \<and> delivered (AuthStateChange None) started
   \<and> session_value (step (FetchResolved None) started) = Absent
   \<and> resolved (step (FetchResolved None) started)
   \<and> sink (step (FetchResolved None) started) = []
   \<and> sink (step (AuthStateChange None) started) \<noteq> []"
  using fetch_null_resolves_silently [of started "AuthStateChange None"]
  by (simp add: started_eq)

section \<open>Last writer wins\<close>

text \<open>
  Against C3: a push with \<open>u1\<close> followed by a fetch resolving with no identity ends in
  \<open>Absent\<close>, but the sink has received one call, the identify for \<open>u1\<close>, and no reset.
\<close>

theorem push_then_fetch_null_counterexample:
  "session_value (run [AuthStateChange (Some u1), FetchResolved None] started) = Absent
   \<and> sink (run [AuthStateChange (Some u1), FetchResolved None] started) =
       [Identify ''u1'' \<lparr>trait_email = None, trait_name = JUndefined\<rparr>]
   \<and> length (sink (run [AuthStateChange (Some u1), FetchResolved None] started)) = 1"
  by (simp add: run_def started_eq auth_change_cb_sink auth_change_cb_fields
      fetch_then_sink fetch_then_fields session_value_def u1_def opt_chain_def js_or_def)

text \<open>
  C3, as the code has it. Every completion delivered to the mounted component, fetch
  result or push notification, overwrites the current value with what it carries and
  marks the store resolved. When a push delivers \<open>u1\<close> and the fetch then resolves with no
  identity, the final state is \<open>Absent\<close> and the sink has been called exactly once, with
  the identify for \<open>u1\<close>.
\<close>

theorem last_writer_wins:
  "(delivered e s \<and> mounted s \<longrightarrow> user (step e s) = carried e \<and> resolved (step e s))
   \<and> session_value (run [AuthStateChange (Some u1), FetchResolved None] started) = Absent
   \<and> sink (run [AuthStateChange (Some u1), FetchResolved None] started) = [associate_call u1]"
proof (intro conjI impI)
  assume "delivered e s \<and> mounted s"
  then show "user (step e s) = carried e"
    by (simp add: delivered_user)
next
  assume "delivered e s \<and> mounted s"
  then show "resolved (step e s)"
    by (simp add: resolved_def delivered_isLoading)
next
  show "session_value (run [AuthStateChange (Some u1), FetchResolved None] started) = Absent"
    by (simp add: run_def started_eq auth_change_cb_fields fetch_then_fields
        session_value_def)
next
  show "sink (run [AuthStateChange (Some u1), FetchResolved None] started) = [associate_call u1]"
    by (simp add: run_def started_eq auth_change_cb_sink auth_change_cb_fields
        fetch_then_sink associate_call_def)
qed

theorem last_writer_wins_witness:
  "delivered (FetchResolved None) (step (AuthStateChange (Some u1)) started)
   \<and> mounted (step (AuthStateChange (Some u1)) started)
   \<and> user (step (FetchResolved None) (step (AuthStateChange (Some u1)) started)) = None
   \<and> resolved (step (FetchResolved None) (step (AuthStateChange (Some u1)) started))"
  using last_writer_wins [of "FetchResolved None" "step (AuthStateChange (Some u1)) started"]
  by (simp add: started_eq auth_change_cb_fields)

section \<open>Teardown\<close>

lemma run_unsubscribed_pushes:
  "\<not> subscribed s \<Longrightarrow> run (map AuthStateChange us) s = s"
  by (induction us) (simp_all add: run_Nil run_Cons)

lemma unmounted_fetch_cells:
  "\<not> mounted s \<Longrightarrow>
     user (step (FetchResolved u) s) = user s
   \<and> isLoading (step (FetchResolved u) s) = isLoading s"
  by (simp add: fetch_then_fields)

text \<open>
  Against C4: a fetch result that arrives after the component has unmounted still reaches
  the sink, although the value readers saw is left as it was.
\<close>

theorem late_fetch_counterexample:
  "sink (run [Unmount] started) = []
   \<and> sink (run [Unmount, FetchResolved (Some u1)] started) =
       [Identify ''u1'' \<lparr>trait_email = None, trait_name = JUndefined\<rparr>]
   \<and> session_value (run [Unmount, FetchResolved (Some u1)] started) = Unknown"
  by (simp add: run_def started_eq unsubscribe_def fetch_then_sink fetch_then_fields
      session_value_def u1_def opt_chain_def js_or_def)

text \<open>
  C4, as the code has it. After teardown no push notification is handled, and a one-shot
  fetch completion that arrives after teardown produces no state mutation: the value and
  the resolved flag stay as they were. The completion is not discarded, though: the fetch
  callback has no teardown check and still runs, so a late completion that carries an
  identity calls identify on the sink; one that carries none makes no sink call.
\<close>

theorem after_teardown:
  "run (map AuthStateChange us) (step Unmount s) = step Unmount s
   \<and> user (step (FetchResolved u) (step Unmount s)) = user s
   \<and> isLoading (step (FetchResolved u) (step Unmount s)) = isLoading s
   \<and> (fetch_pending s \<longrightarrow>
        sink (step (FetchResolved (Some usr)) (step Unmount s)) = sink s @ [associate_call usr])
   \<and> sink (step (FetchResolved None) (step Unmount s)) = sink s"
proof (intro conjI impI)
  have "\<not> subscribed (step Unmount s)"
    by (simp add: unsubscribe_def)
  then show "run (map AuthStateChange us) (step Unmount s) = step Unmount s"
    by (rule run_unsubscribed_pushes)
next
  have "\<not> mounted (step Unmount s)"
    by (simp add: unsubscribe_def)
  then have "user (step (FetchResolved u) (step Unmount s)) = user (step Unmount s)"
    using unmounted_fetch_cells by blast
  then show "user (step (FetchResolved u) (step Unmount s)) = user s"
    by (simp add: unsubscribe_def)
next
  have "\<not> mounted (step Unmount s)"
    by (simp add: unsubscribe_def)
  then have "isLoading (step (FetchResolved u) (step Unmount s)) = isLoading (step Unmount s)"
    using unmounted_fetch_cells by blast
  then show "isLoading (step (FetchResolved u) (step Unmount s)) = isLoading s"
    by (simp add: unsubscribe_def)
next
  assume "fetch_pending s"
  then show "sink (step (FetchResolved (Some usr)) (step Unmount s)) = sink s @ [associate_call usr]"
    by (simp add: unsubscribe_def fetch_then_sink associate_call_def)
next
  show "sink (step (FetchResolved None) (step Unmount s)) = sink s"
    by (simp add: unsubscribe_def fetch_then_sink)
qed

theorem after_teardown_witness:
  "fetch_pending started
   \<and> run (map AuthStateChange [Some u1, None]) (step Unmount started) = step Unmount started
   \<and> user (step (FetchResolved (Some u1)) (step Unmount started)) = None
   \<and> isLoading (step (FetchResolved (Some u1)) (step Unmount started))
   \<and> sink (step (FetchResolved (Some u1)) (step Unmount started)) = [associate_call u1]
   \<and> sink (step (FetchResolved None) (step Unmount started)) = []"
  using after_teardown [of "[Some u1, None]" started "Some u1" u1]
  by (simp add: started_eq)

section \<open>Failures of the session source\<close>

text \<open>
  Against C5: when the fetch promise rejects and no push notification arrives, the store
  is still unresolved.
\<close>

theorem fetch_rejected_counterexample:
  "session_value (run [fetch_event (getUser (Rejected ''network''))] started) = Unknown
   \<and> \<not> resolved (run [fetch_event (getUser (Rejected ''network''))] started)"
  by (simp add: run_def started_eq getUser_def fetch_event_def session_value_def
      resolved_def)

text \<open>
  C5, as the code has it. A rejection of the fetch promise runs no callback: the value,
  the resolved flag and the sink are as before, so with no push notification a started
  store stays \<open>Unknown\<close>. A provider answer that reports an error and no user is not
  propagated: \<open>getUser\<close> does not read the error, resolves with no identity, and the store
  resolves to \<open>Absent\<close>.
\<close>

theorem fetch_failure:
  "user (step (fetch_event (getUser (Rejected e))) s) = user s
   \<and> isLoading (step (fetch_event (getUser (Rejected e))) s) = isLoading s
   \<and> sink (step (fetch_event (getUser (Rejected e))) s) = sink s
   \<and> session_value (run [fetch_event (getUser (Rejected e))] started) = Unknown
   \<and> session_value
       (run [fetch_event (getUser (Fulfilled \<lparr>data_user = None, resp_error = err\<rparr>))] started)
       = Absent"
  by (simp add: run_def started_eq getUser_def fetch_event_def session_value_def
      fetch_then_fields)

text \<open>
  Against C7: when establishing the subscription throws, the exception leaves the effect,
  the component is unmounted, and the fetch result that arrives afterwards does not drive
  the state: the store is still \<open>Unknown\<close>.
\<close>

theorem subscribe_throws_counterexample:
  "fst (useEffect_body (Some ''subscribe failed'') AuthProvider_init) = Inl ''subscribe failed''
   \<and> \<not> mounted (snd (useEffect_body (Some ''subscribe failed'') AuthProvider_init))
   \<and> session_value
       (step (FetchResolved (Some u1))
          (snd (useEffect_body (Some ''subscribe failed'') AuthProvider_init))) = Unknown
   \<and> \<not> resolved
       (step (FetchResolved None)
          (snd (useEffect_body (Some ''subscribe failed'') AuthProvider_init)))"
  by (simp add: useEffect_body_def AuthProvider_init_def fetch_then_fields session_value_def
      resolved_def)

text \<open>
  C7, as the code has it. When establishing the push subscription throws, the store does
  not catch the exception: it leaves the effect, which returns no cleanup function, and
  the component is unmounted. The one-shot fetch was issued before the failing call, so
  its callback still runs when the fetch resolves, and calls identify on the sink when
  the result carries an identity; but it no longer drives the state: the value and the
  resolved flag stay as they were, so a store that failed at its start stays \<open>Unknown\<close>.
  No push notification is ever handled.
\<close>

theorem subscribe_throws:
  "fst (useEffect_body (Some e) s) = Inl e
   \<and> fetch_pending (snd (useEffect_body (Some e) s))
   \<and> \<not> mounted (snd (useEffect_body (Some e) s))
   \<and> subscribed (snd (useEffect_body (Some e) s)) = subscribed s
   \<and> user (step (FetchResolved u) (snd (useEffect_body (Some e) s))) = user s
   \<and> isLoading (step (FetchResolved u) (snd (useEffect_body (Some e) s))) = isLoading s
   \<and> sink (step (FetchResolved (Some usr)) (snd (useEffect_body (Some e) s)))
       = sink s @ [associate_call usr]
   \<and> sink (step (FetchResolved None) (snd (useEffect_body (Some e) s))) = sink s
   \<and> session_value (step (FetchResolved u) (snd (useEffect_body (Some e) AuthProvider_init)))
       = Unknown
   \<and> run (map AuthStateChange us) (snd (useEffect_body (Some e) AuthProvider_init))
       = snd (useEffect_body (Some e) AuthProvider_init)"
proof -
  have "\<not> subscribed (snd (useEffect_body (Some e) AuthProvider_init))"
    by (simp add: useEffect_body_def AuthProvider_init_def)
  then have "run (map AuthStateChange us) (snd (useEffect_body (Some e) AuthProvider_init))
       = snd (useEffect_body (Some e) AuthProvider_init)"
    by (rule run_unsubscribed_pushes)
  moreover have "session_value
      (step (FetchResolved u) (snd (useEffect_body (Some e) AuthProvider_init))) = Unknown"
    by (simp add: useEffect_body_def AuthProvider_init_def fetch_then_fields
        session_value_def)
  ultimately show ?thesis
    by (simp add: useEffect_body_def fetch_then_fields fetch_then_sink associate_call_def)
qed

section \<open>Readers outside a provider\<close>

text \<open>
  C10. A reader that calls \<open>useAuth\<close> with no enclosing \<open>AuthProvider\<close> gets the default
  context value: no identity, and \<open>isLoading\<close> true, that is, not resolved.
\<close>

theorem useAuth_without_provider:
  "useAuth [] = \<lparr>user = None, isLoading = True\<rparr>"
  by (simp add: useAuth_def useContext_def AuthContext_default_def)

end
